theory Spec2Isabelle
  imports Complex_Main
begin

section \<open>Python values, exceptions and sequences\<close>

text \<open>
  The driver \<^verbatim>\<open>omegacn7500.py\<close> is Python 2. Pattern and step numbers and the integer
  parameters (actual step, additional cycles, link) are Python integers, modelled as
  \<^typ>\<open>int\<close>. Setpoints and times are Python numbers (int or float); each finite number
  is the rational it denotes, and the only operation the driver applies to them is
  comparison, which Python performs exactly, so they are modelled as \<^typ>\<open>rat\<close>
  (NaN and the infinities are outside the model).
\<close>

datatype error =
    InvalidArgument string
  | ParseError rat
  | IndexError

text \<open>
  \<open>InvalidArgument d\<close> is the exception of the range checks of \<^verbatim>\<open>minimalmodbus\<close>, with the
  \<^verbatim>\<open>description\<close> argument \<open>d\<close>; \<open>ParseError v\<close> is the
  \<^verbatim>\<open>ValueError('Could not parse the control mode value: ...')\<close> of \<^verbatim>\<open>get_control_mode\<close>
  for the device value \<open>v\<close>; \<open>IndexError\<close> is Python's exception for a sequence index
  out of range.
\<close>

datatype pyval = Num rat | Str string | NoneVal

text \<open>Python 2 \<^verbatim>\<open>range(a, b)\<close>: the list of the integers from \<open>a\<close> up to \<open>b - 1\<close>.\<close>

definition range_py :: "int \<Rightarrow> int \<Rightarrow> int list" where
  "range_py a b = [a..b - 1]"

text \<open>
  Python indexing \<^verbatim>\<open>xs[i]\<close> of a tuple or list: a negative index counts from the end,
  an index outside \<open>-len \<dots> len - 1\<close> raises IndexError.
\<close>

definition py_index :: "'a list \<Rightarrow> int \<Rightarrow> error + 'a" where
  "py_index xs i =
     (if 0 \<le> i \<and> i < int (length xs) then Inr (xs ! nat i)
      else if - int (length xs) \<le> i \<and> i < 0 then Inr (xs ! nat (int (length xs) + i))
      else Inl IndexError)"

section \<open>The register tables (lines 44 to 57)\<close>

definition setpoint_addresses :: "int list list" where
  "setpoint_addresses =
     [range_py 8192 8200, range_py 8200 8208, range_py 8208 8216, range_py 8216 8224,
      range_py 8224 8232, range_py 8232 8240, range_py 8240 8248, range_py 8248 8256]"

definition time_addresses :: "int list list" where
  "time_addresses =
     [range_py 8320 8328, range_py 8328 8336, range_py 8336 8344, range_py 8344 8352,
      range_py 8352 8360, range_py 8360 8368, range_py 8368 8376, range_py 8376 8384]"

definition actual_step_addresses :: "int list" where
  "actual_step_addresses = range_py 4160 4168"

definition additional_cycles_addresses :: "int list" where
  "additional_cycles_addresses = range_py 4176 4184"

definition link_pattern_addresses :: "int list" where
  "link_pattern_addresses = range_py 4192 4200"

definition CONTROL_MODES :: "rat \<rightharpoonup> string" where
  "CONTROL_MODES =
     map_of [(0, ''PID''), (1, ''ON/OFF''), (2, ''Manual Tuning''), (3, ''Program'')]"

definition SETPOINT_MAX :: rat where
  "SETPOINT_MAX = 9999 / 10"

definition TIME_MAX :: rat where
  "TIME_MAX = 900"

text \<open>
  The double subscript \<^verbatim>\<open>table[pattern][step]\<close> of the two step tables: the address the
  driver resolves, or the IndexError either subscript raises.
\<close>

definition table_address :: "int list list \<Rightarrow> int \<Rightarrow> int \<Rightarrow> error + int" where
  "table_address table pattern step =
     (case py_index table pattern of
        Inl e \<Rightarrow> Inl e
      | Inr row \<Rightarrow> py_index row step)"

section \<open>The instrument and its Transport\<close>

text \<open>
  One call of the Transport, as the log of the instrument records it: the register or
  bit address, the value of a write, and the number of decimals of a register access.
  Standard output is a list of \<^verbatim>\<open>print\<close> statements, each the format string and its
  arguments (the line is not formatted).
\<close>

datatype call =
    ReadRegister int nat
  | WriteRegister int rat nat
  | ReadBit int
  | WriteBit int int

record OmegaCN7500 =
  setpoint_max :: rat
  time_max :: rat
  registers :: "int \<Rightarrow> rat"
  coils :: "int \<Rightarrow> int"
  calls :: "call list"
  stdout :: "(string \<times> pyval list) list"

text \<open>
  A method of the instrument runs on the instrument and either raises or returns, leaving
  the instrument as the calls made so far have left it.
\<close>

type_synonym 'a io = "OmegaCN7500 \<Rightarrow> (error + 'a) \<times> OmegaCN7500"

definition return_io :: "'a \<Rightarrow> 'a io" where
  "return_io x = (\<lambda>s. (Inr x, s))"

definition lift_io :: "error + 'a \<Rightarrow> 'a io" where
  "lift_io r = (\<lambda>s. (r, s))"

definition bind_io :: "'a io \<Rightarrow> ('a \<Rightarrow> 'b io) \<Rightarrow> 'b io" where
  "bind_io m f = (\<lambda>s. case m s of (Inl e, s') \<Rightarrow> (Inl e, s') | (Inr x, s') \<Rightarrow> f x s')"

text \<open>
  The Transport is \<^verbatim>\<open>minimalmodbus.Instrument\<close>, which the class inherits and which is
  not part of the driver's file. Section 6 of the specification gives its four calls and
  section 8 tests the driver against an idempotent mock of it. The model is that mock: a
  write stores the value at the address, a read returns what is stored there, and every
  call is appended to the log \<open>calls\<close>. The mock never fails: transport failures are not
  modelled.
\<close>

text \<open>
  Modelled from the spec: \<^verbatim>\<open>read_register(address, decimals)\<close> of the Transport, which
  reads one scaled numeric register.
\<close>

definition read_register :: "int \<Rightarrow> nat \<Rightarrow> rat io" where
  "read_register registeraddress numberOfDecimals =
     (\<lambda>s. (Inr (registers s registeraddress),
           s\<lparr>calls := calls s @ [ReadRegister registeraddress numberOfDecimals]\<rparr>))"

text \<open>
  Modelled from the spec: \<^verbatim>\<open>write_register(address, value, decimals)\<close> of the Transport,
  which writes one scaled numeric register.
\<close>

definition write_register :: "int \<Rightarrow> rat \<Rightarrow> nat \<Rightarrow> unit io" where
  "write_register registeraddress val numberOfDecimals =
     (\<lambda>s. (Inr (),
           s\<lparr>registers := (registers s)(registeraddress := val),
             calls := calls s @ [WriteRegister registeraddress val numberOfDecimals]\<rparr>))"

text \<open>Modelled from the spec: \<^verbatim>\<open>read_bit(address)\<close> of the Transport, which reads one bit.\<close>

definition read_bit :: "int \<Rightarrow> int io" where
  "read_bit registeraddress =
     (\<lambda>s. (Inr (coils s registeraddress),
           s\<lparr>calls := calls s @ [ReadBit registeraddress]\<rparr>))"

text \<open>
  Modelled from the spec: \<^verbatim>\<open>write_bit(address, value)\<close> of the Transport, which writes one
  bit.
\<close>

definition write_bit :: "int \<Rightarrow> int \<Rightarrow> unit io" where
  "write_bit registeraddress val =
     (\<lambda>s. (Inr (),
           s\<lparr>coils := (coils s)(registeraddress := val),
             calls := calls s @ [WriteBit registeraddress val]\<rparr>))"

text \<open>
  Modelled from the spec: the default of the \<^verbatim>\<open>numberOfDecimals\<close> parameter of
  \<^verbatim>\<open>read_register\<close> and \<^verbatim>\<open>write_register\<close>, which is not part of the driver's file. It is
  used where the driver passes no decimals (control mode; reading the additional cycles
  and the link). Section 6 gives the control mode 0 decimals.
\<close>

definition default_numberOfDecimals :: nat where
  "default_numberOfDecimals = 0"

text \<open>
  Modelled from the spec: \<^verbatim>\<open>minimalmodbus._checkInt\<close>, which is not part of the driver's
  file. Section 4.2: a check either returns or fails with InvalidArgument naming the
  quantity, performs no I/O and has no side effect; the bounds are inclusive (section 3:
  pattern index in [0,7]). The value is an integer by its type.
\<close>

definition minimalmodbus_checkInt :: "int \<Rightarrow> int \<Rightarrow> int \<Rightarrow> string \<Rightarrow> error + unit" where
  "minimalmodbus_checkInt inputvalue minvalue maxvalue description =
     (if inputvalue < minvalue \<or> maxvalue < inputvalue
      then Inl (InvalidArgument description) else Inr ())"

text \<open>
  Modelled from the spec: \<^verbatim>\<open>minimalmodbus._checkNumerical\<close>, which is not part of the
  driver's file. Section 4.2, as for the integer check; the bounds are inclusive (section
  3: setpoint in [0, setpoint_max], duration in [0, time_max]).
\<close>

definition minimalmodbus_checkNumerical :: "rat \<Rightarrow> rat \<Rightarrow> rat \<Rightarrow> string \<Rightarrow> error + unit" where
  "minimalmodbus_checkNumerical inputvalue minvalue maxvalue description =
     (if inputvalue < minvalue \<or> maxvalue < inputvalue
      then Inl (InvalidArgument description) else Inr ())"

text \<open>The \<^verbatim>\<open>print\<close> statement: one line on standard output.\<close>

definition print_py :: "string \<Rightarrow> pyval list \<Rightarrow> unit io" where
  "print_py fmt args = (\<lambda>s. (Inr (), s\<lparr>stdout := stdout s @ [(fmt, args)]\<rparr>))"

section \<open>The checks of the driver (lines 441 to 451)\<close>

definition checkPatternNumber :: "int \<Rightarrow> error + unit" where
  "checkPatternNumber patternnumber =
     minimalmodbus_checkInt patternnumber 0 7 ''pattern number''"

definition checkStepNumber :: "int \<Rightarrow> error + unit" where
  "checkStepNumber stepnumber = minimalmodbus_checkInt stepnumber 0 7 ''step number''"

definition checkSetpointValue :: "rat \<Rightarrow> rat \<Rightarrow> error + unit" where
  "checkSetpointValue setpointvalue maxvalue =
     minimalmodbus_checkNumerical setpointvalue 0 maxvalue ''setpoint value''"

definition checkTimeValue :: "rat \<Rightarrow> rat \<Rightarrow> error + unit" where
  "checkTimeValue timevalue maxvalue =
     minimalmodbus_checkNumerical timevalue 0 maxvalue ''time value''"

section \<open>The methods of the class OmegaCN7500\<close>

text \<open>
  The constructor sets the two limits; the memory of the device behind the mock
  Transport is given.
\<close>

definition init :: "(int \<Rightarrow> rat) \<Rightarrow> (int \<Rightarrow> int) \<Rightarrow> OmegaCN7500" where
  "init device_registers device_coils =
     \<lparr>setpoint_max = SETPOINT_MAX, time_max = TIME_MAX,
      registers = device_registers, coils = device_coils, calls = [], stdout = []\<rparr>"

definition get_pv :: "rat io" where
  "get_pv = read_register 4096 1"

definition run :: "unit io" where
  "run = write_bit 2068 1"

definition stop :: "unit io" where
  "stop = write_bit 2068 0"

definition is_running :: "bool io" where
  "is_running = bind_io (read_bit 2068) (\<lambda>b. return_io (b = 1))"

definition get_setpoint :: "rat io" where
  "get_setpoint = read_register 4097 1"

definition set_setpoint :: "rat \<Rightarrow> unit io" where
  "set_setpoint val =
     (\<lambda>self.
        (bind_io (lift_io (checkSetpointValue val (setpoint_max self))) (\<lambda>_.
         write_register 4097 val 1)) self)"

definition get_control_mode :: "string io" where
  "get_control_mode =
     bind_io (read_register 4101 default_numberOfDecimals) (\<lambda>mode_value.
       case CONTROL_MODES mode_value of
         Some name \<Rightarrow> return_io name
       | None \<Rightarrow> lift_io (Inl (ParseError mode_value)))"

definition set_control_mode :: "int \<Rightarrow> unit io" where
  "set_control_mode val =
     bind_io (lift_io (minimalmodbus_checkInt val 0 3 ''control mode'')) (\<lambda>_.
     write_register 4101 (of_int val) default_numberOfDecimals)"

definition get_start_pattern_no :: "rat io" where
  "get_start_pattern_no = read_register 4144 0"

definition set_start_pattern_no :: "int \<Rightarrow> unit io" where
  "set_start_pattern_no val =
     bind_io (lift_io (checkPatternNumber val)) (\<lambda>_.
     write_register 4144 (of_int val) 0)"

definition get_pattern_step_setpoint :: "int \<Rightarrow> int \<Rightarrow> rat io" where
  "get_pattern_step_setpoint pattern step =
     bind_io (lift_io (checkPatternNumber pattern)) (\<lambda>_.
     bind_io (lift_io (checkStepNumber step)) (\<lambda>_.
     bind_io (lift_io (table_address setpoint_addresses pattern step)) (\<lambda>address.
     read_register address 1)))"

definition set_pattern_step_setpoint :: "int \<Rightarrow> int \<Rightarrow> rat \<Rightarrow> unit io" where
  "set_pattern_step_setpoint pattern step val =
     (\<lambda>self.
        (bind_io (lift_io (checkPatternNumber pattern)) (\<lambda>_.
         bind_io (lift_io (checkStepNumber step)) (\<lambda>_.
         bind_io (lift_io (checkSetpointValue val (setpoint_max self))) (\<lambda>_.
         bind_io (lift_io (table_address setpoint_addresses pattern step)) (\<lambda>address.
         write_register address val 1))))) self)"

definition get_pattern_step_time :: "int \<Rightarrow> int \<Rightarrow> rat io" where
  "get_pattern_step_time pattern step =
     bind_io (lift_io (checkPatternNumber pattern)) (\<lambda>_.
     bind_io (lift_io (checkStepNumber step)) (\<lambda>_.
     bind_io (lift_io (table_address time_addresses pattern step)) (\<lambda>address.
     read_register address 0)))"

definition set_pattern_step_time :: "int \<Rightarrow> int \<Rightarrow> rat \<Rightarrow> unit io" where
  "set_pattern_step_time pattern step val =
     (\<lambda>self.
        (bind_io (lift_io (checkPatternNumber pattern)) (\<lambda>_.
         bind_io (lift_io (checkStepNumber step)) (\<lambda>_.
         bind_io (lift_io (checkTimeValue val (time_max self))) (\<lambda>_.
         bind_io (lift_io (table_address time_addresses pattern step)) (\<lambda>address.
         write_register address val 0))))) self)"

definition get_pattern_actual_step :: "int \<Rightarrow> pyval io" where
  "get_pattern_actual_step pattern =
     (if 0 \<le> pattern \<and> pattern \<le> 7 then
        bind_io (lift_io (py_index actual_step_addresses pattern)) (\<lambda>address.
        bind_io (read_register address 0) (\<lambda>r.
        return_io (Num r)))
      else return_io (Str ''Not a valid pattern number, must be 0-7''))"

definition set_pattern_actual_step :: "int \<Rightarrow> int \<Rightarrow> pyval io" where
  "set_pattern_actual_step pattern val =
     (if 0 \<le> pattern \<and> pattern \<le> 7 \<and> 0 \<le> val \<and> val \<le> 7 then
        bind_io (lift_io (py_index actual_step_addresses pattern)) (\<lambda>address.
        bind_io (write_register address (of_int val) 0) (\<lambda>_.
        return_io NoneVal))
      else if pattern \<notin> set (range_py 0 8) then
        return_io (Str ''Not a valid pattern number, must be 0-7'')
      else if val \<notin> set (range_py 0 8) then
        return_io (Str ''Not a valid step number, must be 0-7'')
      else return_io NoneVal)"

definition get_pattern_additional_cycles :: "int \<Rightarrow> pyval io" where
  "get_pattern_additional_cycles pattern =
     (if 0 \<le> pattern \<and> pattern \<le> 7 then
        bind_io (lift_io (py_index additional_cycles_addresses pattern)) (\<lambda>address.
        bind_io (read_register address default_numberOfDecimals) (\<lambda>r.
        return_io (Num r)))
      else return_io (Str ''Not a valid pattern number, must be 0-7''))"

definition set_pattern_additional_cycles :: "int \<Rightarrow> int \<Rightarrow> pyval io" where
  "set_pattern_additional_cycles pattern val =
     (if 0 \<le> pattern \<and> pattern \<le> 7 \<and> 0 \<le> val \<and> val \<le> 99 then
        bind_io (lift_io (py_index additional_cycles_addresses pattern)) (\<lambda>address.
        bind_io (write_register address (of_int val) 0) (\<lambda>_.
        return_io NoneVal))
      else if pattern \<notin> set (range_py 0 8) then
        return_io (Str ''Not a valid pattern number, must be 0-7'')
      else if val > 99 then
        return_io (Str ''Not a valid number of additional cycles, must be 0-99'')
      else return_io NoneVal)"

definition get_pattern_link_topattern :: "int \<Rightarrow> pyval io" where
  "get_pattern_link_topattern pattern =
     (if 0 \<le> pattern \<and> pattern \<le> 7 then
        bind_io (lift_io (py_index link_pattern_addresses pattern)) (\<lambda>address.
        bind_io (read_register address default_numberOfDecimals) (\<lambda>r.
        return_io (Num r)))
      else return_io (Str ''Not a valid pattern number, must be 0-7''))"

definition set_pattern_link_topattern :: "int \<Rightarrow> int \<Rightarrow> pyval io" where
  "set_pattern_link_topattern pattern val =
     (if 0 \<le> pattern \<and> pattern \<le> 7 \<and> 0 \<le> val \<and> val \<le> 8 then
        bind_io (lift_io (py_index link_pattern_addresses pattern)) (\<lambda>address.
        bind_io (write_register address (of_int val) 0) (\<lambda>_.
        return_io NoneVal))
      else if pattern \<notin> set (range_py 0 8) then
        return_io (Str ''Not a valid pattern number, must be 0-7'')
      else if val \<notin> set (range_py 0 9) then
        return_io (Str ''Not a valid value, must be pattern 0-7 or 8 for OFF'')
      else return_io NoneVal)"

text \<open>
  \<^verbatim>\<open>get_all_pattern_variables\<close> (lines 328 to 383) has three blocks under its guard: the
  19 addresses are resolved (lines 335 to 353), the 19 registers are read (lines 354 to
  372) and 11 lines are printed (lines 373 to 383). The method has no return statement,
  so it returns None on both branches of the guard. The model has one definition for each
  block, the last block first; each block ends in the one that follows it in the source.
\<close>

definition get_all_pattern_variables_print ::
  "rat \<Rightarrow> rat \<Rightarrow> rat \<Rightarrow> rat \<Rightarrow> rat \<Rightarrow> rat \<Rightarrow> rat \<Rightarrow> rat \<Rightarrow>
   rat \<Rightarrow> rat \<Rightarrow> rat \<Rightarrow> rat \<Rightarrow> rat \<Rightarrow> rat \<Rightarrow> rat \<Rightarrow> rat \<Rightarrow>
   rat \<Rightarrow> rat \<Rightarrow> rat \<Rightarrow> pyval io" where
  "get_all_pattern_variables_print
       sp0 sp1 sp2 sp3 sp4 sp5 sp6 sp7
       ti0 ti1 ti2 ti3 ti4 ti5 ti6 ti7
       actual_step additional_cycles link_pattern =
     bind_io (print_py ''%-2s %-4d %-2s %d '' [Str ''SP0:'', Num sp0, Str ''Time0:'', Num ti0]) (\<lambda>_.
     bind_io (print_py ''%-2s %-4d %-2s %d'' [Str ''SP1:'', Num sp1, Str ''Time1:'', Num ti1]) (\<lambda>_.
     bind_io (print_py ''%-2s %-4d %-2s %d'' [Str ''SP2:'', Num sp2, Str ''Time2:'', Num ti2]) (\<lambda>_.
     bind_io (print_py ''%-2s %-4d %-2s %d'' [Str ''SP3:'', Num sp3, Str ''Time3:'', Num ti3]) (\<lambda>_.
     bind_io (print_py ''%-2s %-4d %-2s %d'' [Str ''SP4:'', Num sp4, Str ''Time4:'', Num ti4]) (\<lambda>_.
     bind_io (print_py ''%-2s %-4d %-2s %d'' [Str ''SP5:'', Num sp5, Str ''Time5:'', Num ti5]) (\<lambda>_.
     bind_io (print_py ''%-2s %-4d %-2s %d'' [Str ''SP6:'', Num sp6, Str ''Time6:'', Num ti6]) (\<lambda>_.
     bind_io (print_py ''%-2s %-4d %-2s %d'' [Str ''SP7:'', Num sp7, Str ''Time7:'', Num ti7]) (\<lambda>_.
     bind_io (print_py ''%-17s %d'' [Str ''Actual step:'', Num actual_step]) (\<lambda>_.
     bind_io (print_py ''%-17s %d'' [Str ''Add'l cycles:'', Num additional_cycles]) (\<lambda>_.
     bind_io (print_py ''%-17s %d'' [Str ''Linked pattern:'', Num link_pattern]) (\<lambda>_.
     return_io NoneVal)))))))))))"

definition get_all_pattern_variables_read ::
  "int \<Rightarrow> int \<Rightarrow> int \<Rightarrow> int \<Rightarrow> int \<Rightarrow> int \<Rightarrow> int \<Rightarrow> int \<Rightarrow>
   int \<Rightarrow> int \<Rightarrow> int \<Rightarrow> int \<Rightarrow> int \<Rightarrow> int \<Rightarrow> int \<Rightarrow> int \<Rightarrow>
   int \<Rightarrow> int \<Rightarrow> int \<Rightarrow> pyval io" where
  "get_all_pattern_variables_read
       sp0_address sp1_address sp2_address sp3_address
       sp4_address sp5_address sp6_address sp7_address
       ti0_address ti1_address ti2_address ti3_address
       ti4_address ti5_address ti6_address ti7_address
       actual_step_address additional_cycles_address link_pattern_address =
     bind_io (read_register sp0_address 1) (\<lambda>sp0.
     bind_io (read_register sp1_address 1) (\<lambda>sp1.
     bind_io (read_register sp2_address 1) (\<lambda>sp2.
     bind_io (read_register sp3_address 1) (\<lambda>sp3.
     bind_io (read_register sp4_address 1) (\<lambda>sp4.
     bind_io (read_register sp5_address 1) (\<lambda>sp5.
     bind_io (read_register sp6_address 1) (\<lambda>sp6.
     bind_io (read_register sp7_address 1) (\<lambda>sp7.
     bind_io (read_register ti0_address 0) (\<lambda>ti0.
     bind_io (read_register ti1_address 0) (\<lambda>ti1.
     bind_io (read_register ti2_address 0) (\<lambda>ti2.
     bind_io (read_register ti3_address 0) (\<lambda>ti3.
     bind_io (read_register ti4_address 0) (\<lambda>ti4.
     bind_io (read_register ti5_address 0) (\<lambda>ti5.
     bind_io (read_register ti6_address 0) (\<lambda>ti6.
     bind_io (read_register ti7_address 0) (\<lambda>ti7.
     bind_io (read_register actual_step_address 0) (\<lambda>actual_step.
     bind_io (read_register additional_cycles_address 0) (\<lambda>additional_cycles.
     bind_io (read_register link_pattern_address 0) (\<lambda>link_pattern.
     get_all_pattern_variables_print
       sp0 sp1 sp2 sp3 sp4 sp5 sp6 sp7
       ti0 ti1 ti2 ti3 ti4 ti5 ti6 ti7
       actual_step additional_cycles link_pattern)))))))))))))))))))"

definition get_all_pattern_variables :: "int \<Rightarrow> pyval io" where
  "get_all_pattern_variables pattern =
     (if 0 \<le> pattern \<and> pattern \<le> 7 then
        bind_io (lift_io (table_address setpoint_addresses pattern 0)) (\<lambda>sp0_address.
        bind_io (lift_io (table_address setpoint_addresses pattern 1)) (\<lambda>sp1_address.
        bind_io (lift_io (table_address setpoint_addresses pattern 2)) (\<lambda>sp2_address.
        bind_io (lift_io (table_address setpoint_addresses pattern 3)) (\<lambda>sp3_address.
        bind_io (lift_io (table_address setpoint_addresses pattern 4)) (\<lambda>sp4_address.
        bind_io (lift_io (table_address setpoint_addresses pattern 5)) (\<lambda>sp5_address.
        bind_io (lift_io (table_address setpoint_addresses pattern 6)) (\<lambda>sp6_address.
        bind_io (lift_io (table_address setpoint_addresses pattern 7)) (\<lambda>sp7_address.
        bind_io (lift_io (table_address time_addresses pattern 0)) (\<lambda>ti0_address.
        bind_io (lift_io (table_address time_addresses pattern 1)) (\<lambda>ti1_address.
        bind_io (lift_io (table_address time_addresses pattern 2)) (\<lambda>ti2_address.
        bind_io (lift_io (table_address time_addresses pattern 3)) (\<lambda>ti3_address.
        bind_io (lift_io (table_address time_addresses pattern 4)) (\<lambda>ti4_address.
        bind_io (lift_io (table_address time_addresses pattern 5)) (\<lambda>ti5_address.
        bind_io (lift_io (table_address time_addresses pattern 6)) (\<lambda>ti6_address.
        bind_io (lift_io (table_address time_addresses pattern 7)) (\<lambda>ti7_address.
        bind_io (lift_io (py_index actual_step_addresses pattern)) (\<lambda>actual_step_address.
        bind_io (lift_io (py_index additional_cycles_addresses pattern)) (\<lambda>additional_cycles_address.
        bind_io (lift_io (py_index link_pattern_addresses pattern)) (\<lambda>link_pattern_address.
        get_all_pattern_variables_read
          sp0_address sp1_address sp2_address sp3_address
          sp4_address sp5_address sp6_address sp7_address
          ti0_address ti1_address ti2_address ti3_address
          ti4_address ti5_address ti6_address ti7_address
          actual_step_address additional_cycles_address link_pattern_address)))))))))))))))))))
      else return_io NoneVal)"

text \<open>
  \<^verbatim>\<open>set_all_pattern_variables\<close> (lines 385 to 433) has two blocks: the 19 addresses are
  resolved by subscripts (lines 396 to 414), then the 19 values are written in the order
  of the source (lines 415 to 433). There is no check in the method.
\<close>

definition set_all_pattern_variables_write ::
  "int \<Rightarrow> int \<Rightarrow> int \<Rightarrow> int \<Rightarrow> int \<Rightarrow> int \<Rightarrow> int \<Rightarrow> int \<Rightarrow>
   int \<Rightarrow> int \<Rightarrow> int \<Rightarrow> int \<Rightarrow> int \<Rightarrow> int \<Rightarrow> int \<Rightarrow> int \<Rightarrow>
   int \<Rightarrow> int \<Rightarrow> int \<Rightarrow>
   rat \<Rightarrow> rat \<Rightarrow> rat \<Rightarrow> rat \<Rightarrow> rat \<Rightarrow> rat \<Rightarrow> rat \<Rightarrow> rat \<Rightarrow>
   rat \<Rightarrow> rat \<Rightarrow> rat \<Rightarrow> rat \<Rightarrow> rat \<Rightarrow> rat \<Rightarrow> rat \<Rightarrow> rat \<Rightarrow>
   int \<Rightarrow> int \<Rightarrow> int \<Rightarrow> unit io" where
  "set_all_pattern_variables_write
       sp0_address sp1_address sp2_address sp3_address
       sp4_address sp5_address sp6_address sp7_address
       ti0_address ti1_address ti2_address ti3_address
       ti4_address ti5_address ti6_address ti7_address
       actual_step_address additional_cycles_address link_pattern_address
       sp0 sp1 sp2 sp3 sp4 sp5 sp6 sp7
       ti0 ti1 ti2 ti3 ti4 ti5 ti6 ti7
       actual_step additional_cycles link_pattern =
     bind_io (write_register sp0_address sp0 1) (\<lambda>_.
     bind_io (write_register sp1_address sp1 1) (\<lambda>_.
     bind_io (write_register sp2_address sp2 1) (\<lambda>_.
     bind_io (write_register sp3_address sp3 1) (\<lambda>_.
     bind_io (write_register sp4_address sp4 1) (\<lambda>_.
     bind_io (write_register sp5_address sp5 1) (\<lambda>_.
     bind_io (write_register sp6_address sp6 1) (\<lambda>_.
     bind_io (write_register sp7_address sp7 1) (\<lambda>_.
     bind_io (write_register ti0_address ti0 0) (\<lambda>_.
     bind_io (write_register ti1_address ti1 0) (\<lambda>_.
     bind_io (write_register ti2_address ti2 0) (\<lambda>_.
     bind_io (write_register ti3_address ti3 0) (\<lambda>_.
     bind_io (write_register ti4_address ti4 0) (\<lambda>_.
     bind_io (write_register ti5_address ti5 0) (\<lambda>_.
     bind_io (write_register ti6_address ti6 0) (\<lambda>_.
     bind_io (write_register ti7_address ti7 0) (\<lambda>_.
     bind_io (write_register actual_step_address (of_int actual_step) 0) (\<lambda>_.
     bind_io (write_register additional_cycles_address (of_int additional_cycles) 0) (\<lambda>_.
     bind_io (write_register link_pattern_address (of_int link_pattern) 0) (\<lambda>_.
     return_io ())))))))))))))))))))"

definition set_all_pattern_variables ::
  "int \<Rightarrow>
   rat \<Rightarrow> rat \<Rightarrow> rat \<Rightarrow> rat \<Rightarrow> rat \<Rightarrow> rat \<Rightarrow> rat \<Rightarrow> rat \<Rightarrow>
   rat \<Rightarrow> rat \<Rightarrow> rat \<Rightarrow> rat \<Rightarrow> rat \<Rightarrow> rat \<Rightarrow> rat \<Rightarrow> rat \<Rightarrow>
   int \<Rightarrow> int \<Rightarrow> int \<Rightarrow> unit io" where
  "set_all_pattern_variables pattern
       sp0 ti0 sp1 ti1 sp2 ti2 sp3 ti3
       sp4 ti4 sp5 ti5 sp6 ti6 sp7 ti7
       actual_step additional_cycles link_pattern =
     bind_io (lift_io (table_address setpoint_addresses pattern 0)) (\<lambda>sp0_address.
     bind_io (lift_io (table_address setpoint_addresses pattern 1)) (\<lambda>sp1_address.
     bind_io (lift_io (table_address setpoint_addresses pattern 2)) (\<lambda>sp2_address.
     bind_io (lift_io (table_address setpoint_addresses pattern 3)) (\<lambda>sp3_address.
     bind_io (lift_io (table_address setpoint_addresses pattern 4)) (\<lambda>sp4_address.
     bind_io (lift_io (table_address setpoint_addresses pattern 5)) (\<lambda>sp5_address.
     bind_io (lift_io (table_address setpoint_addresses pattern 6)) (\<lambda>sp6_address.
     bind_io (lift_io (table_address setpoint_addresses pattern 7)) (\<lambda>sp7_address.
     bind_io (lift_io (table_address time_addresses pattern 0)) (\<lambda>ti0_address.
     bind_io (lift_io (table_address time_addresses pattern 1)) (\<lambda>ti1_address.
     bind_io (lift_io (table_address time_addresses pattern 2)) (\<lambda>ti2_address.
     bind_io (lift_io (table_address time_addresses pattern 3)) (\<lambda>ti3_address.
     bind_io (lift_io (table_address time_addresses pattern 4)) (\<lambda>ti4_address.
     bind_io (lift_io (table_address time_addresses pattern 5)) (\<lambda>ti5_address.
     bind_io (lift_io (table_address time_addresses pattern 6)) (\<lambda>ti6_address.
     bind_io (lift_io (table_address time_addresses pattern 7)) (\<lambda>ti7_address.
     bind_io (lift_io (py_index actual_step_addresses pattern)) (\<lambda>actual_step_address.
     bind_io (lift_io (py_index additional_cycles_addresses pattern)) (\<lambda>additional_cycles_address.
     bind_io (lift_io (py_index link_pattern_addresses pattern)) (\<lambda>link_pattern_address.
     set_all_pattern_variables_write
       sp0_address sp1_address sp2_address sp3_address
       sp4_address sp5_address sp6_address sp7_address
       ti0_address ti1_address ti2_address ti3_address
       ti4_address ti5_address ti6_address ti7_address
       actual_step_address additional_cycles_address link_pattern_address
       sp0 sp1 sp2 sp3 sp4 sp5 sp6 sp7
       ti0 ti1 ti2 ti3 ti4 ti5 ti6 ti7
       actual_step additional_cycles link_pattern)))))))))))))))))))"

definition get_output1 :: "rat io" where
  "get_output1 = read_register 4114 1"


section \<open>Notions used by the properties\<close>

text \<open>The result of a method is an InvalidArgument error.\<close>

definition is_InvalidArgument :: "error + 'a \<Rightarrow> bool" where
  "is_InvalidArgument r = (case r of Inl (InvalidArgument d) \<Rightarrow> True | _ \<Rightarrow> False)"

text \<open>
  The order of two resolved addresses: both subscripts returned, and the first address is
  the smaller one.
\<close>

definition address_less :: "error + int \<Rightarrow> error + int \<Rightarrow> bool" where
  "address_less r r' = (case (r, r') of (Inr a, Inr a') \<Rightarrow> a < a' | _ \<Rightarrow> False)"

text \<open>
  A new instrument (default limits 999.9 and 900) on a device whose registers and bits
  are all 0, before any call.
\<close>

definition new_instrument :: OmegaCN7500 where
  "new_instrument = init (\<lambda>_. 0) (\<lambda>_. 0)"


section \<open>Running the methods: auxiliary facts\<close>

lemma bind_io_lift_Inr: "bind_io (lift_io (Inr x)) f = f x"
  by (simp add: bind_io_def lift_io_def)

lemma bind_io_lift_Inl: "bind_io (lift_io (Inl e)) f = lift_io (Inl e)"
  by (simp add: bind_io_def lift_io_def)

lemma bind_io_return: "bind_io (return_io x) f = f x"
  by (simp add: bind_io_def return_io_def)

lemma bind_io_read_register:
  "bind_io (read_register a d) f s =
     f (registers s a) (s\<lparr>calls := calls s @ [ReadRegister a d]\<rparr>)"
  by (simp add: bind_io_def read_register_def)

lemma bind_io_write_register:
  "bind_io (write_register a v d) f s =
     f () (s\<lparr>registers := (registers s)(a := v), calls := calls s @ [WriteRegister a v d]\<rparr>)"
  by (simp add: bind_io_def write_register_def)

lemma bind_io_print_py:
  "bind_io (print_py fmt args) f s = f () (s\<lparr>stdout := stdout s @ [(fmt, args)]\<rparr>)"
  by (simp add: bind_io_def print_py_def)

lemma valid_index_cases:
  "0 \<le> (i::int) \<Longrightarrow> i \<le> 7 \<Longrightarrow> i = 0 \<or> i = 1 \<or> i = 2 \<or> i = 3 \<or> i = 4 \<or> i = 5 \<or> i = 6 \<or> i = 7"
  by arith

lemma py_index_range:
  "0 \<le> i \<Longrightarrow> i < b - a \<Longrightarrow> py_index (range_py a b) i = Inr (a + i)"
  by (simp add: py_index_def range_py_def)

lemma py_index_setpoint_addresses:
  "0 \<le> p \<Longrightarrow> p \<le> 7 \<Longrightarrow> py_index setpoint_addresses p = Inr (range_py (8192 + 8 * p) (8200 + 8 * p))"
  using valid_index_cases [of p]
  by (auto simp: py_index_def setpoint_addresses_def)

lemma py_index_time_addresses:
  "0 \<le> p \<Longrightarrow> p \<le> 7 \<Longrightarrow> py_index time_addresses p = Inr (range_py (8320 + 8 * p) (8328 + 8 * p))"
  using valid_index_cases [of p]
  by (auto simp: py_index_def time_addresses_def)

lemma setpoint_address_valid:
  "0 \<le> p \<Longrightarrow> p \<le> 7 \<Longrightarrow> 0 \<le> s \<Longrightarrow> s \<le> 7 \<Longrightarrow>
   table_address setpoint_addresses p s = Inr (8192 + 8 * p + s)"
  by (simp add: table_address_def py_index_setpoint_addresses py_index_range)

lemma time_address_valid:
  "0 \<le> p \<Longrightarrow> p \<le> 7 \<Longrightarrow> 0 \<le> s \<Longrightarrow> s \<le> 7 \<Longrightarrow>
   table_address time_addresses p s = Inr (8320 + 8 * p + s)"
  by (simp add: table_address_def py_index_time_addresses py_index_range)

lemma actual_step_address_valid:
  "0 \<le> p \<Longrightarrow> p \<le> 7 \<Longrightarrow> py_index actual_step_addresses p = Inr (4160 + p)"
  by (simp add: actual_step_addresses_def py_index_range)

lemma additional_cycles_address_valid:
  "0 \<le> p \<Longrightarrow> p \<le> 7 \<Longrightarrow> py_index additional_cycles_addresses p = Inr (4176 + p)"
  by (simp add: additional_cycles_addresses_def py_index_range)

lemma link_pattern_address_valid:
  "0 \<le> p \<Longrightarrow> p \<le> 7 \<Longrightarrow> py_index link_pattern_addresses p = Inr (4192 + p)"
  by (simp add: link_pattern_addresses_def py_index_range)

lemma in_range_py: "i \<in> set (range_py a b) \<longleftrightarrow> a \<le> i \<and> i < b"
  by (auto simp: range_py_def)

lemma lift_io_apply: "lift_io r s = (r, s)"
  by (simp add: lift_io_def)

lemma return_io_apply: "return_io x s = (Inr x, s)"
  by (simp add: return_io_def)

lemmas io_simps = bind_io_lift_Inr bind_io_lift_Inl bind_io_return bind_io_read_register
  bind_io_write_register bind_io_print_py lift_io_apply return_io_apply

lemmas check_defs = checkPatternNumber_def checkStepNumber_def checkSetpointValue_def
  checkTimeValue_def minimalmodbus_checkInt_def minimalmodbus_checkNumerical_def

lemma get_pattern_step_setpoint_valid:
  "0 \<le> p \<Longrightarrow> p \<le> 7 \<Longrightarrow> 0 \<le> st \<Longrightarrow> st \<le> 7 \<Longrightarrow>
   get_pattern_step_setpoint p st s =
     (Inr (registers s (8192 + 8 * p + st)),
      s\<lparr>calls := calls s @ [ReadRegister (8192 + 8 * p + st) 1]\<rparr>)"
  by (simp add: get_pattern_step_setpoint_def check_defs io_simps setpoint_address_valid
      read_register_def)

lemma get_pattern_step_time_valid:
  "0 \<le> p \<Longrightarrow> p \<le> 7 \<Longrightarrow> 0 \<le> st \<Longrightarrow> st \<le> 7 \<Longrightarrow>
   get_pattern_step_time p st s =
     (Inr (registers s (8320 + 8 * p + st)),
      s\<lparr>calls := calls s @ [ReadRegister (8320 + 8 * p + st) 0]\<rparr>)"
  by (simp add: get_pattern_step_time_def check_defs io_simps time_address_valid
      read_register_def)

lemma set_pattern_step_setpoint_valid:
  "0 \<le> p \<Longrightarrow> p \<le> 7 \<Longrightarrow> 0 \<le> st \<Longrightarrow> st \<le> 7 \<Longrightarrow> 0 \<le> v \<Longrightarrow> v \<le> setpoint_max s \<Longrightarrow>
   set_pattern_step_setpoint p st v s =
     (Inr (),
      s\<lparr>registers := (registers s)(8192 + 8 * p + st := v),
        calls := calls s @ [WriteRegister (8192 + 8 * p + st) v 1]\<rparr>)"
  by (simp add: set_pattern_step_setpoint_def check_defs io_simps setpoint_address_valid
      write_register_def)

lemma set_pattern_step_time_valid:
  "0 \<le> p \<Longrightarrow> p \<le> 7 \<Longrightarrow> 0 \<le> st \<Longrightarrow> st \<le> 7 \<Longrightarrow> 0 \<le> v \<Longrightarrow> v \<le> time_max s \<Longrightarrow>
   set_pattern_step_time p st v s =
     (Inr (),
      s\<lparr>registers := (registers s)(8320 + 8 * p + st := v),
        calls := calls s @ [WriteRegister (8320 + 8 * p + st) v 0]\<rparr>)"
  by (simp add: set_pattern_step_time_def check_defs io_simps time_address_valid
      write_register_def)

lemma set_pattern_step_setpoint_bad_value:
  "0 \<le> p \<Longrightarrow> p \<le> 7 \<Longrightarrow> 0 \<le> st \<Longrightarrow> st \<le> 7 \<Longrightarrow> \<not> (0 \<le> v \<and> v \<le> setpoint_max s) \<Longrightarrow>
   set_pattern_step_setpoint p st v s = (Inl (InvalidArgument ''setpoint value''), s)"
  by (auto simp add: set_pattern_step_setpoint_def check_defs io_simps)

lemma set_pattern_step_time_bad_value:
  "0 \<le> p \<Longrightarrow> p \<le> 7 \<Longrightarrow> 0 \<le> st \<Longrightarrow> st \<le> 7 \<Longrightarrow> \<not> (0 \<le> v \<and> v \<le> time_max s) \<Longrightarrow>
   set_pattern_step_time p st v s = (Inl (InvalidArgument ''time value''), s)"
  by (auto simp add: set_pattern_step_time_def check_defs io_simps)

lemma get_all_pattern_variables_valid:
  "0 \<le> p \<Longrightarrow> p \<le> 7 \<Longrightarrow>
   get_all_pattern_variables p s =
     (Inr NoneVal,
      s\<lparr>calls := calls s @
          [ReadRegister (8192 + 8 * p) 1, ReadRegister (8192 + 8 * p + 1) 1, ReadRegister (8192 + 8 * p + 2) 1, ReadRegister (8192 + 8 * p + 3) 1, ReadRegister (8192 + 8 * p + 4) 1, ReadRegister (8192 + 8 * p + 5) 1, ReadRegister (8192 + 8 * p + 6) 1, ReadRegister (8192 + 8 * p + 7) 1,
           ReadRegister (8320 + 8 * p) 0, ReadRegister (8320 + 8 * p + 1) 0, ReadRegister (8320 + 8 * p + 2) 0, ReadRegister (8320 + 8 * p + 3) 0, ReadRegister (8320 + 8 * p + 4) 0, ReadRegister (8320 + 8 * p + 5) 0, ReadRegister (8320 + 8 * p + 6) 0, ReadRegister (8320 + 8 * p + 7) 0,
           ReadRegister (4160 + p) 0, ReadRegister (4176 + p) 0, ReadRegister (4192 + p) 0],
        stdout := stdout s @
          [(''%-2s %-4d %-2s %d '', [Str ''SP0:'', Num (registers s (8192 + 8 * p)),
              Str ''Time0:'', Num (registers s (8320 + 8 * p))]),
           (''%-2s %-4d %-2s %d'', [Str ''SP1:'', Num (registers s (8192 + 8 * p + 1)),
              Str ''Time1:'', Num (registers s (8320 + 8 * p + 1))]),
           (''%-2s %-4d %-2s %d'', [Str ''SP2:'', Num (registers s (8192 + 8 * p + 2)),
              Str ''Time2:'', Num (registers s (8320 + 8 * p + 2))]),
           (''%-2s %-4d %-2s %d'', [Str ''SP3:'', Num (registers s (8192 + 8 * p + 3)),
              Str ''Time3:'', Num (registers s (8320 + 8 * p + 3))]),
           (''%-2s %-4d %-2s %d'', [Str ''SP4:'', Num (registers s (8192 + 8 * p + 4)),
              Str ''Time4:'', Num (registers s (8320 + 8 * p + 4))]),
           (''%-2s %-4d %-2s %d'', [Str ''SP5:'', Num (registers s (8192 + 8 * p + 5)),
              Str ''Time5:'', Num (registers s (8320 + 8 * p + 5))]),
           (''%-2s %-4d %-2s %d'', [Str ''SP6:'', Num (registers s (8192 + 8 * p + 6)),
              Str ''Time6:'', Num (registers s (8320 + 8 * p + 6))]),
           (''%-2s %-4d %-2s %d'', [Str ''SP7:'', Num (registers s (8192 + 8 * p + 7)),
              Str ''Time7:'', Num (registers s (8320 + 8 * p + 7))]),
           (''%-17s %d'', [Str ''Actual step:'', Num (registers s (4160 + p))]),
           (''%-17s %d'', [Str ''Add'l cycles:'', Num (registers s (4176 + p))]),
           (''%-17s %d'', [Str ''Linked pattern:'', Num (registers s (4192 + p))])]\<rparr>)"
  by (simp add: get_all_pattern_variables_def get_all_pattern_variables_read_def
      get_all_pattern_variables_print_def io_simps setpoint_address_valid
      time_address_valid actual_step_address_valid additional_cycles_address_valid
      link_pattern_address_valid)


lemma get_control_mode_calls:
  "calls (snd (get_control_mode s)) = calls s @ [ReadRegister 4101 0]"
  by (simp add: get_control_mode_def io_simps default_numberOfDecimals_def
      split: option.split)

lemma is_running_calls: "calls (snd (is_running s)) = calls s @ [ReadBit 2068]"
  by (simp add: is_running_def bind_io_def read_bit_def return_io_def)

lemma get_pattern_actual_step_valid:
  "0 \<le> p \<Longrightarrow> p \<le> 7 \<Longrightarrow>
   get_pattern_actual_step p s =
     (Inr (Num (registers s (4160 + p))), s\<lparr>calls := calls s @ [ReadRegister (4160 + p) 0]\<rparr>)"
  by (simp add: get_pattern_actual_step_def io_simps actual_step_address_valid)

lemma get_pattern_additional_cycles_valid:
  "0 \<le> p \<Longrightarrow> p \<le> 7 \<Longrightarrow>
   get_pattern_additional_cycles p s =
     (Inr (Num (registers s (4176 + p))), s\<lparr>calls := calls s @ [ReadRegister (4176 + p) 0]\<rparr>)"
  by (simp add: get_pattern_additional_cycles_def io_simps additional_cycles_address_valid
      default_numberOfDecimals_def)

lemma get_pattern_link_topattern_valid:
  "0 \<le> p \<Longrightarrow> p \<le> 7 \<Longrightarrow>
   get_pattern_link_topattern p s =
     (Inr (Num (registers s (4192 + p))), s\<lparr>calls := calls s @ [ReadRegister (4192 + p) 0]\<rparr>)"
  by (simp add: get_pattern_link_topattern_def io_simps link_pattern_address_valid
      default_numberOfDecimals_def)

lemma tables_explicit:
  "setpoint_addresses =
     [[8192, 8193, 8194, 8195, 8196, 8197, 8198, 8199],
      [8200, 8201, 8202, 8203, 8204, 8205, 8206, 8207],
      [8208, 8209, 8210, 8211, 8212, 8213, 8214, 8215],
      [8216, 8217, 8218, 8219, 8220, 8221, 8222, 8223],
      [8224, 8225, 8226, 8227, 8228, 8229, 8230, 8231],
      [8232, 8233, 8234, 8235, 8236, 8237, 8238, 8239],
      [8240, 8241, 8242, 8243, 8244, 8245, 8246, 8247],
      [8248, 8249, 8250, 8251, 8252, 8253, 8254, 8255]]"
  "time_addresses =
     [[8320, 8321, 8322, 8323, 8324, 8325, 8326, 8327],
      [8328, 8329, 8330, 8331, 8332, 8333, 8334, 8335],
      [8336, 8337, 8338, 8339, 8340, 8341, 8342, 8343],
      [8344, 8345, 8346, 8347, 8348, 8349, 8350, 8351],
      [8352, 8353, 8354, 8355, 8356, 8357, 8358, 8359],
      [8360, 8361, 8362, 8363, 8364, 8365, 8366, 8367],
      [8368, 8369, 8370, 8371, 8372, 8373, 8374, 8375],
      [8376, 8377, 8378, 8379, 8380, 8381, 8382, 8383]]"
  "actual_step_addresses = [4160, 4161, 4162, 4163, 4164, 4165, 4166, 4167]"
  "additional_cycles_addresses = [4176, 4177, 4178, 4179, 4180, 4181, 4182, 4183]"
  "link_pattern_addresses = [4192, 4193, 4194, 4195, 4196, 4197, 4198, 4199]"
  by (simp_all add: setpoint_addresses_def time_addresses_def actual_step_addresses_def
      additional_cycles_addresses_def link_pattern_addresses_def range_py_def)

lemma not_in_range_8: "(p \<notin> set (range_py 0 8)) = (\<not> (0 \<le> p \<and> p \<le> 7))"
  by (auto simp: in_range_py)

lemma not_in_range_9: "(p \<notin> set (range_py 0 9)) = (\<not> (0 \<le> p \<and> p \<le> 8))"
  by (auto simp: in_range_py)

lemma get_pattern_step_setpoint_invalid:
  "\<not> (0 \<le> p \<and> p \<le> 7) \<or> \<not> (0 \<le> st \<and> st \<le> 7) \<Longrightarrow>
   get_pattern_step_setpoint p st s =
     (Inl (InvalidArgument (if \<not> (0 \<le> p \<and> p \<le> 7) then ''pattern number'' else ''step number'')), s)"
  by (auto simp add: get_pattern_step_setpoint_def check_defs io_simps)

lemma set_pattern_step_setpoint_invalid:
  "\<not> (0 \<le> p \<and> p \<le> 7) \<or> \<not> (0 \<le> st \<and> st \<le> 7) \<Longrightarrow>
   set_pattern_step_setpoint p st v s =
     (Inl (InvalidArgument (if \<not> (0 \<le> p \<and> p \<le> 7) then ''pattern number'' else ''step number'')), s)"
  by (auto simp add: set_pattern_step_setpoint_def check_defs io_simps)

lemma get_pattern_step_time_invalid:
  "\<not> (0 \<le> p \<and> p \<le> 7) \<or> \<not> (0 \<le> st \<and> st \<le> 7) \<Longrightarrow>
   get_pattern_step_time p st s =
     (Inl (InvalidArgument (if \<not> (0 \<le> p \<and> p \<le> 7) then ''pattern number'' else ''step number'')), s)"
  by (auto simp add: get_pattern_step_time_def check_defs io_simps)

lemma set_pattern_step_time_invalid:
  "\<not> (0 \<le> p \<and> p \<le> 7) \<or> \<not> (0 \<le> st \<and> st \<le> 7) \<Longrightarrow>
   set_pattern_step_time p st v s =
     (Inl (InvalidArgument (if \<not> (0 \<le> p \<and> p \<le> 7) then ''pattern number'' else ''step number'')), s)"
  by (auto simp add: set_pattern_step_time_def check_defs io_simps)

lemma set_start_pattern_no_invalid:
  "\<not> (0 \<le> p \<and> p \<le> 7) \<Longrightarrow>
   set_start_pattern_no p s = (Inl (InvalidArgument ''pattern number''), s)"
  by (auto simp add: set_start_pattern_no_def check_defs io_simps)

lemma get_pattern_actual_step_invalid:
  "\<not> (0 \<le> p \<and> p \<le> 7) \<Longrightarrow>
   get_pattern_actual_step p s = (Inr (Str ''Not a valid pattern number, must be 0-7''), s)"
  by (auto simp add: get_pattern_actual_step_def io_simps)

lemma set_pattern_actual_step_invalid:
  "\<not> (0 \<le> p \<and> p \<le> 7) \<Longrightarrow>
   set_pattern_actual_step p v s = (Inr (Str ''Not a valid pattern number, must be 0-7''), s)"
  by (auto simp add: set_pattern_actual_step_def io_simps not_in_range_8)

lemma set_pattern_actual_step_bad_value:
  "0 \<le> p \<Longrightarrow> p \<le> 7 \<Longrightarrow> \<not> (0 \<le> v \<and> v \<le> 7) \<Longrightarrow>
   set_pattern_actual_step p v s = (Inr (Str ''Not a valid step number, must be 0-7''), s)"
  by (auto simp add: set_pattern_actual_step_def io_simps not_in_range_8)

lemma set_pattern_actual_step_valid:
  "0 \<le> p \<Longrightarrow> p \<le> 7 \<Longrightarrow> 0 \<le> v \<Longrightarrow> v \<le> 7 \<Longrightarrow>
   set_pattern_actual_step p v s =
     (Inr NoneVal,
      s\<lparr>registers := (registers s)(4160 + p := of_int v),
        calls := calls s @ [WriteRegister (4160 + p) (of_int v) 0]\<rparr>)"
  by (simp add: set_pattern_actual_step_def io_simps actual_step_address_valid)

lemma get_pattern_additional_cycles_invalid:
  "\<not> (0 \<le> p \<and> p \<le> 7) \<Longrightarrow>
   get_pattern_additional_cycles p s =
     (Inr (Str ''Not a valid pattern number, must be 0-7''), s)"
  by (auto simp add: get_pattern_additional_cycles_def io_simps)

lemma set_pattern_additional_cycles_invalid:
  "\<not> (0 \<le> p \<and> p \<le> 7) \<Longrightarrow>
   set_pattern_additional_cycles p v s =
     (Inr (Str ''Not a valid pattern number, must be 0-7''), s)"
  by (auto simp add: set_pattern_additional_cycles_def io_simps not_in_range_8)

lemma set_pattern_additional_cycles_valid:
  "0 \<le> p \<Longrightarrow> p \<le> 7 \<Longrightarrow> 0 \<le> v \<Longrightarrow> v \<le> 99 \<Longrightarrow>
   set_pattern_additional_cycles p v s =
     (Inr NoneVal,
      s\<lparr>registers := (registers s)(4176 + p := of_int v),
        calls := calls s @ [WriteRegister (4176 + p) (of_int v) 0]\<rparr>)"
  by (simp add: set_pattern_additional_cycles_def io_simps additional_cycles_address_valid)

lemma set_pattern_additional_cycles_above:
  "0 \<le> p \<Longrightarrow> p \<le> 7 \<Longrightarrow> 99 < v \<Longrightarrow>
   set_pattern_additional_cycles p v s =
     (Inr (Str ''Not a valid number of additional cycles, must be 0-99''), s)"
  by (auto simp add: set_pattern_additional_cycles_def io_simps not_in_range_8)

lemma set_pattern_additional_cycles_below:
  "0 \<le> p \<Longrightarrow> p \<le> 7 \<Longrightarrow> v < 0 \<Longrightarrow>
   set_pattern_additional_cycles p v s = (Inr NoneVal, s)"
  by (auto simp add: set_pattern_additional_cycles_def io_simps not_in_range_8)

lemma get_pattern_link_topattern_invalid:
  "\<not> (0 \<le> p \<and> p \<le> 7) \<Longrightarrow>
   get_pattern_link_topattern p s = (Inr (Str ''Not a valid pattern number, must be 0-7''), s)"
  by (auto simp add: get_pattern_link_topattern_def io_simps)

lemma set_pattern_link_topattern_invalid:
  "\<not> (0 \<le> p \<and> p \<le> 7) \<Longrightarrow>
   set_pattern_link_topattern p v s =
     (Inr (Str ''Not a valid pattern number, must be 0-7''), s)"
  by (auto simp add: set_pattern_link_topattern_def io_simps not_in_range_8)

lemma get_all_pattern_variables_invalid:
  "\<not> (0 \<le> p \<and> p \<le> 7) \<Longrightarrow> get_all_pattern_variables p s = (Inr NoneVal, s)"
  by (auto simp add: get_all_pattern_variables_def io_simps)

lemma is_InvalidArgument_simps:
  "is_InvalidArgument (Inl (InvalidArgument d))"
  "\<not> is_InvalidArgument (Inl (ParseError x))"
  "\<not> is_InvalidArgument (Inl IndexError)"
  "\<not> is_InvalidArgument (Inr y)"
  by (simp_all add: is_InvalidArgument_def)

lemma CONTROL_MODES_cases:
  "CONTROL_MODES v =
     (if v = 0 then Some ''PID'' else if v = 1 then Some ''ON/OFF''
      else if v = 2 then Some ''Manual Tuning'' else if v = 3 then Some ''Program''
      else None)"
  by (simp add: CONTROL_MODES_def)

lemmas new_instrument_simps = new_instrument_def init_def SETPOINT_MAX_def TIME_MAX_def


section \<open>The register map\<close>

text \<open>
  Claim C1. The register map is as the device address map gives it. The process value is
  read at register 4096 with 1 decimal, the setpoint at 4097 with 1 decimal, the control
  mode at 4101 with 0 decimals, the start pattern number at 4144 with 0 decimals and the
  output percentage at 4114 with 1 decimal; run, stop and is_running use bit 2068. For a
  pattern \<open>p\<close> and a step \<open>st\<close> in 0 to 7, the setpoint table resolves to
  \<open>8192 + 8 * p + st\<close> (read with 1 decimal) and the time table to
  \<open>8320 + 8 * p + st\<close> (read with 0 decimals), and the three tables with one address
  per pattern resolve to \<open>4160 + p\<close>, \<open>4176 + p\<close> and \<open>4192 + p\<close>. Each step table has
  8 rows of 8 addresses which, one row after the other, are the 64 addresses 8192 to 8255
  and 8320 to 8383; the per-pattern tables are 4160 to 4167, 4176 to 4183 and 4192 to
  4199.
\<close>

theorem register_map:
  assumes "0 \<le> p" "p \<le> 7" "0 \<le> st" "st \<le> 7"
    and "0 \<le> v" "v \<le> setpoint_max s" "0 \<le> code" "code \<le> 3"
  shows "calls (snd (get_pv s)) = calls s @ [ReadRegister 4096 1]
    \<and> calls (snd (get_setpoint s)) = calls s @ [ReadRegister 4097 1]
    \<and> calls (snd (set_setpoint v s)) = calls s @ [WriteRegister 4097 v 1]
    \<and> calls (snd (get_control_mode s)) = calls s @ [ReadRegister 4101 0]
    \<and> calls (snd (set_control_mode code s)) = calls s @ [WriteRegister 4101 (of_int code) 0]
    \<and> calls (snd (run s)) = calls s @ [WriteBit 2068 1]
    \<and> calls (snd (stop s)) = calls s @ [WriteBit 2068 0]
    \<and> calls (snd (is_running s)) = calls s @ [ReadBit 2068]
    \<and> calls (snd (get_start_pattern_no s)) = calls s @ [ReadRegister 4144 0]
    \<and> calls (snd (set_start_pattern_no p s)) = calls s @ [WriteRegister 4144 (of_int p) 0]
    \<and> calls (snd (get_output1 s)) = calls s @ [ReadRegister 4114 1]
    \<and> table_address setpoint_addresses p st = Inr (8192 + 8 * p + st)
    \<and> calls (snd (get_pattern_step_setpoint p st s))
        = calls s @ [ReadRegister (8192 + 8 * p + st) 1]
    \<and> table_address time_addresses p st = Inr (8320 + 8 * p + st)
    \<and> calls (snd (get_pattern_step_time p st s))
        = calls s @ [ReadRegister (8320 + 8 * p + st) 0]
    \<and> py_index actual_step_addresses p = Inr (4160 + p)
    \<and> py_index additional_cycles_addresses p = Inr (4176 + p)
    \<and> py_index link_pattern_addresses p = Inr (4192 + p)
    \<and> map length setpoint_addresses = [8, 8, 8, 8, 8, 8, 8, 8]
    \<and> concat setpoint_addresses = [8192..8255]
    \<and> map length time_addresses = [8, 8, 8, 8, 8, 8, 8, 8]
    \<and> concat time_addresses = [8320..8383]
    \<and> actual_step_addresses = [4160..4167]
    \<and> additional_cycles_addresses = [4176..4183]
    \<and> link_pattern_addresses = [4192..4199]"
proof -
  have single:
    "calls (snd (get_pv s)) = calls s @ [ReadRegister 4096 1]"
    "calls (snd (get_setpoint s)) = calls s @ [ReadRegister 4097 1]"
    "calls (snd (run s)) = calls s @ [WriteBit 2068 1]"
    "calls (snd (stop s)) = calls s @ [WriteBit 2068 0]"
    "calls (snd (get_start_pattern_no s)) = calls s @ [ReadRegister 4144 0]"
    "calls (snd (get_output1 s)) = calls s @ [ReadRegister 4114 1]"
    by (simp_all add: get_pv_def get_setpoint_def run_def stop_def get_start_pattern_no_def
        get_output1_def read_register_def write_bit_def)
  have setters:
    "calls (snd (set_setpoint v s)) = calls s @ [WriteRegister 4097 v 1]"
    "calls (snd (set_control_mode code s)) = calls s @ [WriteRegister 4101 (of_int code) 0]"
    "calls (snd (set_start_pattern_no p s)) = calls s @ [WriteRegister 4144 (of_int p) 0]"
    using assms
    by (simp_all add: set_setpoint_def set_control_mode_def set_start_pattern_no_def
        check_defs io_simps write_register_def default_numberOfDecimals_def)
  have step:
    "calls (snd (get_pattern_step_setpoint p st s))
       = calls s @ [ReadRegister (8192 + 8 * p + st) 1]"
    "calls (snd (get_pattern_step_time p st s))
       = calls s @ [ReadRegister (8320 + 8 * p + st) 0]"
    using assms by (simp_all add: get_pattern_step_setpoint_valid get_pattern_step_time_valid)
  have tabs:
    "map length setpoint_addresses = [8, 8, 8, 8, 8, 8, 8, 8]"
    "concat setpoint_addresses = [8192..8255]"
    "map length time_addresses = [8, 8, 8, 8, 8, 8, 8, 8]"
    "concat time_addresses = [8320..8383]"
    "actual_step_addresses = [4160..4167]"
    "additional_cycles_addresses = [4176..4183]"
    "link_pattern_addresses = [4192..4199]"
    by (simp_all add: tables_explicit)
  show ?thesis
    using assms single setters step tabs get_control_mode_calls [of s] is_running_calls [of s]
      setpoint_address_valid [of p st] time_address_valid [of p st]
      actual_step_address_valid [of p] additional_cycles_address_valid [of p]
      link_pattern_address_valid [of p]
    by simp
qed

theorem register_map_witness:
  "calls (snd (get_pv new_instrument)) = [ReadRegister 4096 1]
    \<and> calls (snd (set_setpoint (1001 / 2) new_instrument)) = [WriteRegister 4097 (1001 / 2) 1]
    \<and> calls (snd (get_control_mode new_instrument)) = [ReadRegister 4101 0]
    \<and> calls (snd (set_control_mode 3 new_instrument)) = [WriteRegister 4101 3 0]
    \<and> calls (snd (set_start_pattern_no 7 new_instrument)) = [WriteRegister 4144 7 0]
    \<and> calls (snd (run new_instrument)) = [WriteBit 2068 1]
    \<and> calls (snd (get_output1 new_instrument)) = [ReadRegister 4114 1]
    \<and> table_address setpoint_addresses 7 7 = Inr 8255
    \<and> calls (snd (get_pattern_step_setpoint 7 7 new_instrument)) = [ReadRegister 8255 1]
    \<and> table_address time_addresses 7 7 = Inr 8383
    \<and> calls (snd (get_pattern_step_time 7 7 new_instrument)) = [ReadRegister 8383 0]
    \<and> py_index actual_step_addresses 7 = Inr 4167
    \<and> py_index additional_cycles_addresses 7 = Inr 4183
    \<and> py_index link_pattern_addresses 7 = Inr 4199"
  using register_map [of 7 7 "1001 / 2" new_instrument 3] by (simp add: new_instrument_simps)


text \<open>
  Claim C2. For patterns and steps in 0 to 7, two (pattern, step) pairs resolve to the same
  address of the setpoint table only if they are the same pair, and the address of one
  pair is below the address of another exactly when the first pair comes first in the
  lexicographic order of (pattern, step); the same holds in the time table.
\<close>

theorem step_addresses_unique_increasing:
  assumes "0 \<le> p" "p \<le> 7" "0 \<le> st" "st \<le> 7" "0 \<le> p'" "p' \<le> 7" "0 \<le> st'" "st' \<le> 7"
  shows "(table_address setpoint_addresses p st = table_address setpoint_addresses p' st')
           = (p = p' \<and> st = st')
    \<and> address_less (table_address setpoint_addresses p st)
          (table_address setpoint_addresses p' st') = (p < p' \<or> p = p' \<and> st < st')
    \<and> (table_address time_addresses p st = table_address time_addresses p' st')
           = (p = p' \<and> st = st')
    \<and> address_less (table_address time_addresses p st)
          (table_address time_addresses p' st') = (p < p' \<or> p = p' \<and> st < st')"
proof -
  have eq: "(8 * p + st = 8 * p' + st') = (p = p' \<and> st = st')"
    using assms by arith
  have less: "(8 * p + st < 8 * p' + st') = (p < p' \<or> p = p' \<and> st < st')"
    using assms by arith
  show ?thesis
    using assms eq less
    by (simp add: setpoint_address_valid time_address_valid address_less_def)
qed

theorem step_addresses_unique_increasing_witness:
  "table_address setpoint_addresses 0 7 \<noteq> table_address setpoint_addresses 1 0
    \<and> address_less (table_address setpoint_addresses 0 7) (table_address setpoint_addresses 1 0)
    \<and> \<not> address_less (table_address setpoint_addresses 1 0) (table_address setpoint_addresses 0 7)
    \<and> table_address time_addresses 0 7 \<noteq> table_address time_addresses 1 0
    \<and> address_less (table_address time_addresses 0 7) (table_address time_addresses 1 0)"
  using step_addresses_unique_increasing [of 0 7 1 0]
    step_addresses_unique_increasing [of 1 0 0 7]
  by simp


section \<open>Invalid indices\<close>

text \<open>
  Claim C3, as the driver has it. With a pattern number or a step number outside 0 to 7,
  the four step methods fail with InvalidArgument and leave the instrument as it was: no
  Transport call is made. With a pattern number outside 0 to 7, \<^verbatim>\<open>set_start_pattern_no\<close>
  fails with InvalidArgument, the six methods for the actual step, the additional cycles
  and the link return the message \<^verbatim>\<open>Not a valid pattern number, must be 0-7\<close> instead of
  failing, and \<^verbatim>\<open>get_all_pattern_variables\<close> returns None; in each case the instrument is
  as it was. \<^verbatim>\<open>set_all_pattern_variables\<close> is not among them.
\<close>

theorem invalid_index_no_transport_call:
  "(\<not> (0 \<le> pattern \<and> pattern \<le> 7) \<or> \<not> (0 \<le> step \<and> step \<le> 7) \<longrightarrow>
      is_InvalidArgument (fst (get_pattern_step_setpoint pattern step self))
      \<and> snd (get_pattern_step_setpoint pattern step self) = self
      \<and> is_InvalidArgument (fst (set_pattern_step_setpoint pattern step x self))
      \<and> snd (set_pattern_step_setpoint pattern step x self) = self
      \<and> is_InvalidArgument (fst (get_pattern_step_time pattern step self))
      \<and> snd (get_pattern_step_time pattern step self) = self
      \<and> is_InvalidArgument (fst (set_pattern_step_time pattern step x self))
      \<and> snd (set_pattern_step_time pattern step x self) = self)
   \<and> (\<not> (0 \<le> pattern \<and> pattern \<le> 7) \<longrightarrow>
      set_start_pattern_no pattern self = (Inl (InvalidArgument ''pattern number''), self)
      \<and> get_pattern_actual_step pattern self
          = (Inr (Str ''Not a valid pattern number, must be 0-7''), self)
      \<and> set_pattern_actual_step pattern n self
          = (Inr (Str ''Not a valid pattern number, must be 0-7''), self)
      \<and> get_pattern_additional_cycles pattern self
          = (Inr (Str ''Not a valid pattern number, must be 0-7''), self)
      \<and> set_pattern_additional_cycles pattern n self
          = (Inr (Str ''Not a valid pattern number, must be 0-7''), self)
      \<and> get_pattern_link_topattern pattern self
          = (Inr (Str ''Not a valid pattern number, must be 0-7''), self)
      \<and> set_pattern_link_topattern pattern n self
          = (Inr (Str ''Not a valid pattern number, must be 0-7''), self)
      \<and> get_all_pattern_variables pattern self = (Inr NoneVal, self))"
proof (intro conjI impI)
  assume bad: "\<not> (0 \<le> pattern \<and> pattern \<le> 7) \<or> \<not> (0 \<le> step \<and> step \<le> 7)"
  show "is_InvalidArgument (fst (get_pattern_step_setpoint pattern step self))"
    by (simp add: get_pattern_step_setpoint_invalid [OF bad] is_InvalidArgument_simps)
  show "snd (get_pattern_step_setpoint pattern step self) = self"
    by (simp add: get_pattern_step_setpoint_invalid [OF bad])
  show "is_InvalidArgument (fst (set_pattern_step_setpoint pattern step x self))"
    by (simp add: set_pattern_step_setpoint_invalid [OF bad] is_InvalidArgument_simps)
  show "snd (set_pattern_step_setpoint pattern step x self) = self"
    by (simp add: set_pattern_step_setpoint_invalid [OF bad])
  show "is_InvalidArgument (fst (get_pattern_step_time pattern step self))"
    by (simp add: get_pattern_step_time_invalid [OF bad] is_InvalidArgument_simps)
  show "snd (get_pattern_step_time pattern step self) = self"
    by (simp add: get_pattern_step_time_invalid [OF bad])
  show "is_InvalidArgument (fst (set_pattern_step_time pattern step x self))"
    by (simp add: set_pattern_step_time_invalid [OF bad] is_InvalidArgument_simps)
  show "snd (set_pattern_step_time pattern step x self) = self"
    by (simp add: set_pattern_step_time_invalid [OF bad])
next
  assume bad: "\<not> (0 \<le> pattern \<and> pattern \<le> 7)"
  show "set_start_pattern_no pattern self = (Inl (InvalidArgument ''pattern number''), self)"
    by (rule set_start_pattern_no_invalid [OF bad])
  show "get_pattern_actual_step pattern self
          = (Inr (Str ''Not a valid pattern number, must be 0-7''), self)"
    by (rule get_pattern_actual_step_invalid [OF bad])
  show "set_pattern_actual_step pattern n self
          = (Inr (Str ''Not a valid pattern number, must be 0-7''), self)"
    by (rule set_pattern_actual_step_invalid [OF bad])
  show "get_pattern_additional_cycles pattern self
          = (Inr (Str ''Not a valid pattern number, must be 0-7''), self)"
    by (rule get_pattern_additional_cycles_invalid [OF bad])
  show "set_pattern_additional_cycles pattern n self
          = (Inr (Str ''Not a valid pattern number, must be 0-7''), self)"
    by (rule set_pattern_additional_cycles_invalid [OF bad])
  show "get_pattern_link_topattern pattern self
          = (Inr (Str ''Not a valid pattern number, must be 0-7''), self)"
    by (rule get_pattern_link_topattern_invalid [OF bad])
  show "set_pattern_link_topattern pattern n self
          = (Inr (Str ''Not a valid pattern number, must be 0-7''), self)"
    by (rule set_pattern_link_topattern_invalid [OF bad])
  show "get_all_pattern_variables pattern self = (Inr NoneVal, self)"
    by (rule get_all_pattern_variables_invalid [OF bad])
qed

theorem invalid_index_no_transport_call_witness:
  "get_pattern_step_setpoint 8 0 new_instrument = (Inl (InvalidArgument ''pattern number''), new_instrument)
   \<and> set_pattern_step_time 0 8 5 new_instrument = (Inl (InvalidArgument ''step number''), new_instrument)
   \<and> set_pattern_additional_cycles (- 1) 5 new_instrument
        = (Inr (Str ''Not a valid pattern number, must be 0-7''), new_instrument)
   \<and> get_all_pattern_variables 8 new_instrument = (Inr NoneVal, new_instrument)
   \<and> calls new_instrument = []"
proof -
  have a: "is_InvalidArgument (fst (get_pattern_step_setpoint 8 0 new_instrument))
      \<and> snd (get_pattern_step_setpoint 8 0 new_instrument) = new_instrument"
    using invalid_index_no_transport_call [of 8 0 new_instrument] by simp
  have b: "is_InvalidArgument (fst (set_pattern_step_time 0 8 5 new_instrument))
      \<and> snd (set_pattern_step_time 0 8 5 new_instrument) = new_instrument"
    using invalid_index_no_transport_call [of 0 8 new_instrument 5] by simp
  have c: "set_pattern_additional_cycles (- 1) 5 new_instrument
        = (Inr (Str ''Not a valid pattern number, must be 0-7''), new_instrument)"
    using invalid_index_no_transport_call [of "- 1" 0 new_instrument 0 5] by simp
  have d: "get_all_pattern_variables 8 new_instrument = (Inr NoneVal, new_instrument)"
    using invalid_index_no_transport_call [of 8 0 new_instrument] by simp
  have e: "fst (get_pattern_step_setpoint 8 0 new_instrument) = Inl (InvalidArgument ''pattern number'')"
    by (simp add: get_pattern_step_setpoint_def check_defs io_simps)
  have f: "fst (set_pattern_step_time 0 8 5 new_instrument) = Inl (InvalidArgument ''step number'')"
    by (simp add: set_pattern_step_time_def check_defs io_simps)
  show ?thesis
    using a b c d e f by (simp add: prod_eq_iff new_instrument_simps)
qed


text \<open>
  The claim as the specification states it fails twice. \<^verbatim>\<open>get_all_pattern_variables(8)\<close>
  does not fail: it returns None. And \<^verbatim>\<open>set_all_pattern_variables\<close> with pattern -1
  and 19 values that are all in range makes 19 writes: Python's subscript -1 selects the
  last row of each table, so the registers of pattern 7 are written.
\<close>

theorem invalid_index_counterexample:
  "get_all_pattern_variables 8 new_instrument = (Inr NoneVal, new_instrument)
   \<and> fst (set_all_pattern_variables (- 1) 0 0 0 0 0 0 0 0 0 0 0 0 0 0 0 0 0 0 0 new_instrument) = Inr ()
   \<and> calls (snd (set_all_pattern_variables (- 1) 0 0 0 0 0 0 0 0 0 0 0 0 0 0 0 0 0 0 0 new_instrument))
      = [WriteRegister 8248 0 1, WriteRegister 8249 0 1, WriteRegister 8250 0 1,
         WriteRegister 8251 0 1, WriteRegister 8252 0 1, WriteRegister 8253 0 1,
         WriteRegister 8254 0 1, WriteRegister 8255 0 1, WriteRegister 8376 0 0,
         WriteRegister 8377 0 0, WriteRegister 8378 0 0, WriteRegister 8379 0 0,
         WriteRegister 8380 0 0, WriteRegister 8381 0 0, WriteRegister 8382 0 0,
         WriteRegister 8383 0 0, WriteRegister 4167 0 0, WriteRegister 4183 0 0,
         WriteRegister 4199 0 0]"
  by (simp add: get_all_pattern_variables_def set_all_pattern_variables_def
      set_all_pattern_variables_write_def io_simps
      table_address_def py_index_def tables_explicit new_instrument_simps)


section \<open>The actual step of a pattern\<close>

text \<open>
  Claim C4, as the driver has it. \<^verbatim>\<open>get_pattern_actual_step\<close> reads register
  \<open>4160 + pattern\<close> when the pattern number is in 0 to 7, and otherwise returns the string
  \<^verbatim>\<open>Not a valid pattern number, must be 0-7\<close> as its value, without any Transport call.
  \<^verbatim>\<open>set_pattern_actual_step\<close> writes the register when the pattern number and the value
  are both in 0 to 7; otherwise it returns that string when the pattern number is outside
  0 to 7, and the string \<^verbatim>\<open>Not a valid step number, must be 0-7\<close> when only the value
  is, again without any Transport call. Neither method fails with InvalidArgument.
\<close>

theorem pattern_actual_step_messages:
  "get_pattern_actual_step pattern self =
     (if 0 \<le> pattern \<and> pattern \<le> 7
      then (Inr (Num (registers self (4160 + pattern))),
            self\<lparr>calls := calls self @ [ReadRegister (4160 + pattern) 0]\<rparr>)
      else (Inr (Str ''Not a valid pattern number, must be 0-7''), self))
   \<and> set_pattern_actual_step pattern n self =
     (if 0 \<le> pattern \<and> pattern \<le> 7 \<and> 0 \<le> n \<and> n \<le> 7
      then (Inr NoneVal,
            self\<lparr>registers := (registers self)(4160 + pattern := of_int n),
              calls := calls self @ [WriteRegister (4160 + pattern) (of_int n) 0]\<rparr>)
      else if 0 \<le> pattern \<and> pattern \<le> 7
      then (Inr (Str ''Not a valid step number, must be 0-7''), self)
      else (Inr (Str ''Not a valid pattern number, must be 0-7''), self))"
proof (cases "0 \<le> pattern \<and> pattern \<le> 7")
  case True
  then show ?thesis
    by (simp add: get_pattern_actual_step_valid set_pattern_actual_step_valid
        set_pattern_actual_step_bad_value)
next
  case False
  then show ?thesis
    using get_pattern_actual_step_invalid [of pattern self]
      set_pattern_actual_step_invalid [of pattern n self]
    by auto
qed

theorem pattern_actual_step_messages_witness:
  "get_pattern_actual_step 8 new_instrument = (Inr (Str ''Not a valid pattern number, must be 0-7''), new_instrument)
   \<and> set_pattern_actual_step (- 1) 3 new_instrument
       = (Inr (Str ''Not a valid pattern number, must be 0-7''), new_instrument)
   \<and> set_pattern_actual_step 2 8 new_instrument = (Inr (Str ''Not a valid step number, must be 0-7''), new_instrument)
   \<and> fst (set_pattern_actual_step 2 3 new_instrument) = Inr NoneVal
   \<and> calls (snd (set_pattern_actual_step 2 3 new_instrument)) = [WriteRegister 4162 3 0]"
  using pattern_actual_step_messages [of 8 new_instrument 0] pattern_actual_step_messages [of "- 1" new_instrument 3]
    pattern_actual_step_messages [of 2 new_instrument 8] pattern_actual_step_messages [of 2 new_instrument 3]
  by (simp add: new_instrument_simps)


text \<open>
  The claim as the specification states it fails: for pattern 8 the getter returns a
  string, and so does the setter for pattern 0 and value 8; neither result is an
  InvalidArgument error.
\<close>

theorem pattern_actual_step_counterexample:
  "fst (get_pattern_actual_step 8 new_instrument) = Inr (Str ''Not a valid pattern number, must be 0-7'')
   \<and> \<not> is_InvalidArgument (fst (get_pattern_actual_step 8 new_instrument))
   \<and> fst (set_pattern_actual_step 0 8 new_instrument) = Inr (Str ''Not a valid step number, must be 0-7'')
   \<and> \<not> is_InvalidArgument (fst (set_pattern_actual_step 0 8 new_instrument))"
  by (simp add: get_pattern_actual_step_def set_pattern_actual_step_def io_simps
      in_range_py is_InvalidArgument_def)


section \<open>Writing a whole pattern\<close>

text \<open>
  Claim C5 says that \<^verbatim>\<open>set_all_pattern_variables\<close> validates the pattern number and each
  of the 19 values and fails with InvalidArgument on the first one that is out of range.
  The method has no check. On a new instrument, whose \<^verbatim>\<open>setpoint_max\<close> is 999.9, the
  setpoint 1200 is refused by \<^verbatim>\<open>set_pattern_step_setpoint(0, 0, 1200)\<close>, while
  \<^verbatim>\<open>set_all_pattern_variables\<close> with pattern 0, \<^verbatim>\<open>sp0 = 1200\<close> and every other value 0
  returns normally after 19 writes, the first of them 1200 to register 8192.
\<close>

theorem set_all_pattern_variables_unchecked:
  "setpoint_max new_instrument = 9999 / 10
   \<and> fst (set_pattern_step_setpoint 0 0 1200 new_instrument) = Inl (InvalidArgument ''setpoint value'')
   \<and> fst (set_all_pattern_variables 0 1200 0 0 0 0 0 0 0 0 0 0 0 0 0 0 0 0 0 0 new_instrument) = Inr ()
   \<and> registers (snd (set_all_pattern_variables 0 1200 0 0 0 0 0 0 0 0 0 0 0 0 0 0 0 0 0 0 new_instrument))
        8192 = 1200
   \<and> calls (snd (set_all_pattern_variables 0 1200 0 0 0 0 0 0 0 0 0 0 0 0 0 0 0 0 0 0 new_instrument))
      = [WriteRegister 8192 1200 1, WriteRegister 8193 0 1, WriteRegister 8194 0 1,
         WriteRegister 8195 0 1, WriteRegister 8196 0 1, WriteRegister 8197 0 1,
         WriteRegister 8198 0 1, WriteRegister 8199 0 1, WriteRegister 8320 0 0,
         WriteRegister 8321 0 0, WriteRegister 8322 0 0, WriteRegister 8323 0 0,
         WriteRegister 8324 0 0, WriteRegister 8325 0 0, WriteRegister 8326 0 0,
         WriteRegister 8327 0 0, WriteRegister 4160 0 0, WriteRegister 4176 0 0,
         WriteRegister 4192 0 0]"
  by (simp add: set_pattern_step_setpoint_def check_defs set_all_pattern_variables_def
      set_all_pattern_variables_write_def io_simps table_address_def py_index_def
      tables_explicit new_instrument_simps)


section \<open>Reading a whole pattern\<close>

text \<open>
  Claim C6, as the driver has it. For a pattern number in 0 to 7,
  \<^verbatim>\<open>get_all_pattern_variables\<close> reads the 19 registers of the pattern, in the order 8
  setpoints (1 decimal), 8 times, actual step, additional cycles and link (0 decimals),
  prints the 19 values on 11 lines, and returns None. For any other pattern number it
  makes no Transport call, prints nothing, and returns None without an error.
\<close>

theorem get_all_pattern_variables_reads_and_prints:
  "get_all_pattern_variables p s =
     (if 0 \<le> p \<and> p \<le> 7 then
        (Inr NoneVal,
         s\<lparr>calls := calls s @
             [ReadRegister (8192 + 8 * p) 1, ReadRegister (8192 + 8 * p + 1) 1,
              ReadRegister (8192 + 8 * p + 2) 1, ReadRegister (8192 + 8 * p + 3) 1,
              ReadRegister (8192 + 8 * p + 4) 1, ReadRegister (8192 + 8 * p + 5) 1,
              ReadRegister (8192 + 8 * p + 6) 1, ReadRegister (8192 + 8 * p + 7) 1,
              ReadRegister (8320 + 8 * p) 0, ReadRegister (8320 + 8 * p + 1) 0,
              ReadRegister (8320 + 8 * p + 2) 0, ReadRegister (8320 + 8 * p + 3) 0,
              ReadRegister (8320 + 8 * p + 4) 0, ReadRegister (8320 + 8 * p + 5) 0,
              ReadRegister (8320 + 8 * p + 6) 0, ReadRegister (8320 + 8 * p + 7) 0,
              ReadRegister (4160 + p) 0, ReadRegister (4176 + p) 0,
              ReadRegister (4192 + p) 0],
           stdout := stdout s @
             [(''%-2s %-4d %-2s %d '', [Str ''SP0:'', Num (registers s (8192 + 8 * p)),
                 Str ''Time0:'', Num (registers s (8320 + 8 * p))]),
              (''%-2s %-4d %-2s %d'', [Str ''SP1:'', Num (registers s (8192 + 8 * p + 1)),
                 Str ''Time1:'', Num (registers s (8320 + 8 * p + 1))]),
              (''%-2s %-4d %-2s %d'', [Str ''SP2:'', Num (registers s (8192 + 8 * p + 2)),
                 Str ''Time2:'', Num (registers s (8320 + 8 * p + 2))]),
              (''%-2s %-4d %-2s %d'', [Str ''SP3:'', Num (registers s (8192 + 8 * p + 3)),
                 Str ''Time3:'', Num (registers s (8320 + 8 * p + 3))]),
              (''%-2s %-4d %-2s %d'', [Str ''SP4:'', Num (registers s (8192 + 8 * p + 4)),
                 Str ''Time4:'', Num (registers s (8320 + 8 * p + 4))]),
              (''%-2s %-4d %-2s %d'', [Str ''SP5:'', Num (registers s (8192 + 8 * p + 5)),
                 Str ''Time5:'', Num (registers s (8320 + 8 * p + 5))]),
              (''%-2s %-4d %-2s %d'', [Str ''SP6:'', Num (registers s (8192 + 8 * p + 6)),
                 Str ''Time6:'', Num (registers s (8320 + 8 * p + 6))]),
              (''%-2s %-4d %-2s %d'', [Str ''SP7:'', Num (registers s (8192 + 8 * p + 7)),
                 Str ''Time7:'', Num (registers s (8320 + 8 * p + 7))]),
              (''%-17s %d'', [Str ''Actual step:'', Num (registers s (4160 + p))]),
              (''%-17s %d'', [Str ''Add'l cycles:'', Num (registers s (4176 + p))]),
              (''%-17s %d'', [Str ''Linked pattern:'', Num (registers s (4192 + p))])]\<rparr>)
      else (Inr NoneVal, s))"
proof (cases "0 \<le> p \<and> p \<le> 7")
  case True
  then have "0 \<le> p" and "p \<le> 7" by simp_all
  from get_all_pattern_variables_valid [OF this, of s] show ?thesis
    unfolding if_P [OF True] by simp
next
  case False
  show ?thesis
    unfolding if_not_P [OF False] by (rule get_all_pattern_variables_invalid [OF False])
qed

theorem get_all_pattern_variables_reads_and_prints_witness:
  "fst (get_all_pattern_variables 3 new_instrument) = Inr NoneVal
   \<and> length (calls (snd (get_all_pattern_variables 3 new_instrument))) = 19
   \<and> hd (calls (snd (get_all_pattern_variables 3 new_instrument))) = ReadRegister 8216 1
   \<and> last (calls (snd (get_all_pattern_variables 3 new_instrument))) = ReadRegister 4195 0
   \<and> length (stdout (snd (get_all_pattern_variables 3 new_instrument))) = 11
   \<and> get_all_pattern_variables 9 new_instrument = (Inr NoneVal, new_instrument)"
  using get_all_pattern_variables_reads_and_prints [of 3 new_instrument]
    get_all_pattern_variables_reads_and_prints [of 9 new_instrument]
  by (simp add: new_instrument_simps)


text \<open>
  The claim as the specification states it fails: for pattern 0 the method returns None,
  not a record of the 19 fields, and for pattern 8 it returns None and leaves the
  instrument as it was instead of failing with InvalidArgument.
\<close>

theorem get_all_pattern_variables_counterexample:
  "fst (get_all_pattern_variables 0 new_instrument) = Inr NoneVal
   \<and> get_all_pattern_variables 8 new_instrument = (Inr NoneVal, new_instrument)"
  by (simp add: get_all_pattern_variables_valid get_all_pattern_variables_invalid)


section \<open>Range checks of the step setters\<close>

text \<open>
  Claim C7. For a pattern number and a step number in 0 to 7,
  \<^verbatim>\<open>set_pattern_step_setpoint\<close> returns normally if the value is at least 0 and at most the
  \<^verbatim>\<open>setpoint_max\<close> of the instrument, and otherwise fails with InvalidArgument and leaves
  the instrument as it was, so no Transport call is made; \<^verbatim>\<open>set_pattern_step_time\<close> does
  the same with \<^verbatim>\<open>time_max\<close>.
\<close>

theorem step_value_range_check:
  assumes "0 \<le> pattern" "pattern \<le> 7" "0 \<le> step" "step \<le> 7"
  shows "(if 0 \<le> v \<and> v \<le> setpoint_max self
          then fst (set_pattern_step_setpoint pattern step v self) = Inr ()
          else set_pattern_step_setpoint pattern step v self
                 = (Inl (InvalidArgument ''setpoint value''), self))
    \<and> (if 0 \<le> v \<and> v \<le> time_max self
          then fst (set_pattern_step_time pattern step v self) = Inr ()
          else set_pattern_step_time pattern step v self
                 = (Inl (InvalidArgument ''time value''), self))"
proof -
  have sp: "0 \<le> v \<and> v \<le> setpoint_max self \<Longrightarrow>
      fst (set_pattern_step_setpoint pattern step v self) = Inr ()"
    using assms by (simp add: set_pattern_step_setpoint_valid)
  have ti: "0 \<le> v \<and> v \<le> time_max self \<Longrightarrow>
      fst (set_pattern_step_time pattern step v self) = Inr ()"
    using assms by (simp add: set_pattern_step_time_valid)
  show ?thesis
    using sp ti set_pattern_step_setpoint_bad_value [OF assms, of v self]
      set_pattern_step_time_bad_value [OF assms, of v self]
    by (simp split: if_split)
qed

theorem step_value_range_check_witness:
  "fst (set_pattern_step_setpoint 0 0 (1001 / 2) new_instrument) = Inr ()
   \<and> set_pattern_step_setpoint 0 0 1200 new_instrument = (Inl (InvalidArgument ''setpoint value''), new_instrument)
   \<and> set_pattern_step_setpoint 0 0 (- 1) new_instrument = (Inl (InvalidArgument ''setpoint value''), new_instrument)
   \<and> fst (set_pattern_step_setpoint 0 0 (9999 / 10) new_instrument) = Inr ()
   \<and> fst (set_pattern_step_time 7 7 900 new_instrument) = Inr ()
   \<and> set_pattern_step_time 7 7 901 new_instrument = (Inl (InvalidArgument ''time value''), new_instrument)
   \<and> calls new_instrument = []"
  using step_value_range_check [of 0 0 "1001 / 2" new_instrument] step_value_range_check [of 0 0 1200 new_instrument]
    step_value_range_check [of 0 0 "- 1" new_instrument] step_value_range_check [of 0 0 "9999 / 10" new_instrument]
    step_value_range_check [of 7 7 900 new_instrument] step_value_range_check [of 7 7 901 new_instrument]
  by (simp add: new_instrument_simps)


section \<open>The control mode\<close>

text \<open>
  Claim C8. \<^verbatim>\<open>get_control_mode\<close> returns PID, ON/OFF, Manual Tuning or Program when the
  device holds 0, 1, 2 or 3 in register 4101, and fails with ParseError for every other
  value. \<^verbatim>\<open>set_control_mode\<close> writes a code from 0 to 3 to register 4101 and fails with
  InvalidArgument, without a Transport call, for every other code. After
  \<^verbatim>\<open>set_control_mode(2)\<close>, \<^verbatim>\<open>get_control_mode\<close> returns Manual Tuning.
\<close>

theorem control_mode_names:
  "fst (get_control_mode self) =
     (if registers self 4101 = 0 then Inr ''PID''
      else if registers self 4101 = 1 then Inr ''ON/OFF''
      else if registers self 4101 = 2 then Inr ''Manual Tuning''
      else if registers self 4101 = 3 then Inr ''Program''
      else Inl (ParseError (registers self 4101)))
   \<and> set_control_mode code self =
     (if 0 \<le> code \<and> code \<le> 3
      then (Inr (),
            self\<lparr>registers := (registers self)(4101 := of_int code),
              calls := calls self @ [WriteRegister 4101 (of_int code) 0]\<rparr>)
      else (Inl (InvalidArgument ''control mode''), self))
   \<and> fst (get_control_mode (snd (set_control_mode 2 self))) = Inr ''Manual Tuning''"
proof (intro conjI)
  show "fst (get_control_mode self) =
     (if registers self 4101 = 0 then Inr ''PID''
      else if registers self 4101 = 1 then Inr ''ON/OFF''
      else if registers self 4101 = 2 then Inr ''Manual Tuning''
      else if registers self 4101 = 3 then Inr ''Program''
      else Inl (ParseError (registers self 4101)))"
    by (simp add: get_control_mode_def io_simps CONTROL_MODES_cases)
  show set: "set_control_mode code self =
     (if 0 \<le> code \<and> code \<le> 3
      then (Inr (),
            self\<lparr>registers := (registers self)(4101 := of_int code),
              calls := calls self @ [WriteRegister 4101 (of_int code) 0]\<rparr>)
      else (Inl (InvalidArgument ''control mode''), self))"
    by (auto simp add: set_control_mode_def minimalmodbus_checkInt_def io_simps
        write_register_def default_numberOfDecimals_def)
  show "fst (get_control_mode (snd (set_control_mode 2 self))) = Inr ''Manual Tuning''"
    by (simp add: set_control_mode_def minimalmodbus_checkInt_def get_control_mode_def
        io_simps write_register_def CONTROL_MODES_cases)
qed

theorem control_mode_names_witness:
  "fst (get_control_mode new_instrument) = Inr ''PID''
   \<and> fst (get_control_mode (new_instrument\<lparr>registers := (\<lambda>_. 9)\<rparr>)) = Inl (ParseError 9)
   \<and> set_control_mode 4 new_instrument = (Inl (InvalidArgument ''control mode''), new_instrument)
   \<and> set_control_mode (- 1) new_instrument = (Inl (InvalidArgument ''control mode''), new_instrument)
   \<and> fst (get_control_mode (snd (set_control_mode 2 new_instrument))) = Inr ''Manual Tuning''
   \<and> fst (get_control_mode (snd (set_control_mode 3 new_instrument))) = Inr ''Program''"
  using control_mode_names [of new_instrument 4] control_mode_names [of "new_instrument\<lparr>registers := (\<lambda>_. 9)\<rparr>" 0]
    control_mode_names [of new_instrument "- 1"] control_mode_names [of new_instrument 3]
    control_mode_names [of "snd (set_control_mode 3 new_instrument)" 0]
  by (simp add: new_instrument_simps)


section \<open>The additional cycles of a pattern\<close>

text \<open>
  Claim C9, as the driver has it. For a pattern number in 0 to 7,
  \<^verbatim>\<open>set_pattern_additional_cycles\<close> makes its write, one write of the value to register
  \<open>4176 + pattern\<close> with 0 decimals, if the value is in 0 to 99, and otherwise leaves the
  instrument as it was; for a value above 99 it returns the string
  \<^verbatim>\<open>Not a valid number of additional cycles, must be 0-99\<close> as its value.
\<close>

theorem additional_cycles_range:
  assumes "0 \<le> pattern" "pattern \<le> 7"
  shows "(if 0 \<le> n \<and> n \<le> 99
          then set_pattern_additional_cycles pattern n self =
                 (Inr NoneVal,
                  self\<lparr>registers := (registers self)(4176 + pattern := of_int n),
                    calls := calls self @ [WriteRegister (4176 + pattern) (of_int n) 0]\<rparr>)
          else snd (set_pattern_additional_cycles pattern n self) = self)
    \<and> (99 < n \<longrightarrow>
          fst (set_pattern_additional_cycles pattern n self)
            = Inr (Str ''Not a valid number of additional cycles, must be 0-99''))"
proof -
  consider "0 \<le> n \<and> n \<le> 99" | "99 < n" | "n < 0" by linarith
  then show ?thesis
  proof cases
    case 1
    then show ?thesis
      using assms by (simp add: set_pattern_additional_cycles_valid)
  next
    case 2
    then show ?thesis
      using assms
      by (simp add: set_pattern_additional_cycles_above)
  next
    case 3
    then show ?thesis
      using assms
      by (simp add: set_pattern_additional_cycles_below)
  qed
qed

theorem additional_cycles_range_witness:
  "fst (set_pattern_additional_cycles 5 99 new_instrument) = Inr NoneVal
   \<and> calls (snd (set_pattern_additional_cycles 5 99 new_instrument)) = [WriteRegister 4181 99 0]
   \<and> set_pattern_additional_cycles 5 100 new_instrument
        = (Inr (Str ''Not a valid number of additional cycles, must be 0-99''), new_instrument)
   \<and> snd (set_pattern_additional_cycles 5 (- 1) new_instrument) = new_instrument
   \<and> calls new_instrument = []"
proof -
  have a: "snd (set_pattern_additional_cycles 5 100 new_instrument) = new_instrument
      \<and> fst (set_pattern_additional_cycles 5 100 new_instrument)
           = Inr (Str ''Not a valid number of additional cycles, must be 0-99'')"
    using additional_cycles_range [of 5 100 new_instrument] by simp
  show ?thesis
    using a additional_cycles_range [of 5 99 new_instrument] additional_cycles_range [of 5 "- 1" new_instrument]
    by (simp add: new_instrument_simps prod_eq_iff)
qed


text \<open>
  The claim as the specification states it fails: for the value 100 the method returns a
  string, and for the value -1 it returns None; neither result is an InvalidArgument
  error.
\<close>

theorem additional_cycles_counterexample:
  "fst (set_pattern_additional_cycles 0 100 new_instrument)
     = Inr (Str ''Not a valid number of additional cycles, must be 0-99'')
   \<and> \<not> is_InvalidArgument (fst (set_pattern_additional_cycles 0 100 new_instrument))
   \<and> fst (set_pattern_additional_cycles 0 (- 1) new_instrument) = Inr NoneVal
   \<and> \<not> is_InvalidArgument (fst (set_pattern_additional_cycles 0 (- 1) new_instrument))"
  by (simp add: set_pattern_additional_cycles_def io_simps in_range_py is_InvalidArgument_def)


section \<open>The frame of the step setters\<close>

text \<open>
  Claim C10. For a pattern number and a step number in 0 to 7 and a value in range,
  \<^verbatim>\<open>set_pattern_step_setpoint\<close> returns normally and changes the instrument by exactly one
  Transport call, the write of the value to register \<open>8192 + 8 * pattern + step\<close> with 1
  decimal: the log grows by that call alone and no other register changes.
  \<^verbatim>\<open>set_pattern_step_time\<close> does the same with register \<open>8320 + 8 * pattern + step\<close> and 0
  decimals.
\<close>

theorem step_write_single_call:
  assumes "0 \<le> pattern" "pattern \<le> 7" "0 \<le> step" "step \<le> 7"
    and "0 \<le> v" "v \<le> setpoint_max self" "0 \<le> t" "t \<le> time_max self"
  shows "set_pattern_step_setpoint pattern step v self =
           (Inr (),
            self\<lparr>registers := (registers self)(8192 + 8 * pattern + step := v),
              calls := calls self @ [WriteRegister (8192 + 8 * pattern + step) v 1]\<rparr>)
    \<and> set_pattern_step_time pattern step t self =
           (Inr (),
            self\<lparr>registers := (registers self)(8320 + 8 * pattern + step := t),
              calls := calls self @ [WriteRegister (8320 + 8 * pattern + step) t 0]\<rparr>)"
  using assms set_pattern_step_setpoint_valid [of pattern step v self]
    set_pattern_step_time_valid [of pattern step t self]
  by simp

theorem step_write_single_call_witness:
  "set_pattern_step_setpoint 2 5 (1001 / 2) new_instrument =
     (Inr (), new_instrument\<lparr>registers := (registers new_instrument)(8213 := 1001 / 2),
                calls := [WriteRegister 8213 (1001 / 2) 1]\<rparr>)
   \<and> set_pattern_step_time 2 5 30 new_instrument =
     (Inr (), new_instrument\<lparr>registers := (registers new_instrument)(8341 := 30),
                calls := [WriteRegister 8341 30 0]\<rparr>)"
  using step_write_single_call [of 2 5 "1001 / 2" new_instrument 30]
  by (simp add: new_instrument_simps)

end
